theory Spec2Isabelle
  imports Complex_Main
begin

section \<open>The browser surface read and written by the components\<close>

text \<open>
  The two components of the landing page talk to the browser through a handful of
  calls: \<^verbatim>\<open>document.getElementById\<close>, \<^verbatim>\<open>getBoundingClientRect\<close>,
  \<^verbatim>\<open>window.scrollY\<close>, \<^verbatim>\<open>scrollIntoView\<close>,
  \<^verbatim>\<open>document.body.style.overflow\<close> and
  \<^verbatim>\<open>document.documentElement.classList\<close>. Pixel coordinates are
  finite JavaScript numbers; the code only compares them with the constants 50 and 100,
  so they are modelled as reals with the usual order.
\<close>

record DOMRect =
  rect_top :: real
  rect_bottom :: real

text \<open>An element of the document: its id attribute and the rectangle that
  \<^verbatim>\<open>getBoundingClientRect\<close> reports when the event fires.\<close>

record element =
  el_id :: string
  el_rect :: DOMRect

datatype ScrollBehavior = Auto | Smooth | Instant

datatype ScrollLogicalPosition = Start | Center | End | Nearest

text \<open>The options dictionary of \<^verbatim>\<open>scrollIntoView\<close>; a member the caller
  leaves out is \<open>None\<close>.\<close>

record ScrollIntoViewOptions =
  behavior :: "ScrollBehavior option"
  block :: "ScrollLogicalPosition option"

text \<open>The document in tree order, the vertical scroll offset of the window, and the
  log of the \<^verbatim>\<open>scrollIntoView\<close> invocations made so far.\<close>

record browser =
  elements :: "element list"
  scrollY :: real
  scroll_calls :: "(element \<times> ScrollIntoViewOptions) list"

datatype js_error = TypeError

text \<open>\<^verbatim>\<open>document.getElementById(id)\<close>: the first element in tree order whose
  ID is the argument, otherwise null. An element whose id attribute is empty has no ID.\<close>

definition getElementById :: "browser \<Rightarrow> string \<Rightarrow> element option" where
  "getElementById b sid =
     (if sid = [] then None else List.find (\<lambda>e. el_id e = sid) (elements b))"

text \<open>The test \<^verbatim>\<open>if (element)\<close> on a value of type
  \<^verbatim>\<open>HTMLElement | null\<close>: an object is truthy, null is not.\<close>

definition truthy_element :: "element option \<Rightarrow> bool" where
  "truthy_element x = (x \<noteq> None)"

text \<open>The test \<^verbatim>\<open>if (currentSection)\<close> on a value of type
  \<^verbatim>\<open>string | undefined\<close>: undefined and the empty string are falsy.\<close>

definition truthy_string :: "string option \<Rightarrow> bool" where
  "truthy_string x = (case x of None \<Rightarrow> False | Some s \<Rightarrow> s \<noteq> [])"

text \<open>A method call on null throws a TypeError.\<close>

definition getBoundingClientRect :: "element option \<Rightarrow> js_error + DOMRect" where
  "getBoundingClientRect x = (case x of None \<Rightarrow> Inl TypeError | Some e \<Rightarrow> Inr (el_rect e))"

definition scrollIntoView ::
  "element option \<Rightarrow> ScrollIntoViewOptions \<Rightarrow> browser \<Rightarrow> js_error + browser" where
  "scrollIntoView x opts b =
     (case x of
        None \<Rightarrow> Inl TypeError
      | Some e \<Rightarrow> Inr (b\<lparr>scroll_calls := scroll_calls b @ [(e, opts)]\<rparr>))"

text \<open>The defaults the DOM gives to the members of the options dictionary that a caller
  leaves out: behavior \<^verbatim>\<open>auto\<close>, block \<^verbatim>\<open>start\<close> (the top of the
  element is aligned with the top of the viewport).\<close>

definition resolved_behavior :: "ScrollIntoViewOptions \<Rightarrow> ScrollBehavior" where
  "resolved_behavior opts = (case behavior opts of None \<Rightarrow> Auto | Some v \<Rightarrow> v)"

definition resolved_block :: "ScrollIntoViewOptions \<Rightarrow> ScrollLogicalPosition" where
  "resolved_block opts = (case block opts of None \<Rightarrow> Start | Some v \<Rightarrow> v)"

text \<open>\<^verbatim>\<open>Array.prototype.find\<close> with a callback that may throw: the elements
  are visited in order, the first one the callback accepts is returned, undefined when
  there is none, and an exception of the callback ends the search.\<close>

fun Array_find :: "('a \<Rightarrow> js_error + bool) \<Rightarrow> 'a list \<Rightarrow> js_error + 'a option" where
  "Array_find p [] = Inr None"
| "Array_find p (x # xs) =
     (case p x of
        Inl err \<Rightarrow> Inl err
      | Inr ok \<Rightarrow> if ok then Inr (Some x) else Array_find p xs)"

section \<open>ElegantNavigation: the scroll tracker\<close>

record nav_state =
  isScrolled :: bool
  activeSection :: string

text \<open>\<^verbatim>\<open>useState(false)\<close> and \<^verbatim>\<open>useState("")\<close>.\<close>

definition ElegantNavigation_init :: nav_state where
  "ElegantNavigation_init = \<lparr>isScrolled = False, activeSection = ''''\<rparr>"

definition setIsScrolled :: "bool \<Rightarrow> nav_state \<Rightarrow> nav_state" where
  "setIsScrolled v st = st\<lparr>isScrolled := v\<rparr>"

definition setActiveSection :: "string \<Rightarrow> nav_state \<Rightarrow> nav_state" where
  "setActiveSection v st = st\<lparr>activeSection := v\<rparr>"

definition sections :: "string list" where
  "sections = [''hero'', ''services'', ''work'', ''about'', ''contact'']"

text \<open>The callback handed to \<^verbatim>\<open>sections.find\<close>.\<close>

definition section_callback :: "browser \<Rightarrow> string \<Rightarrow> js_error + bool" where
  "section_callback b section =
     (let element = getElementById b section in
      if truthy_element element then
        (case getBoundingClientRect element of
           Inl err \<Rightarrow> Inl err
         | Inr rect \<Rightarrow> Inr (rect_top rect \<le> 100 \<and> rect_bottom rect \<ge> 100))
      else Inr False)"

text \<open>The scroll listener. An uncaught exception would abandon the handler (\<open>Inl\<close>).\<close>

definition handleScroll :: "browser \<Rightarrow> nav_state \<Rightarrow> js_error + nav_state" where
  "handleScroll b st =
     (let st1 = setIsScrolled (scrollY b > 50) st in
      case Array_find (section_callback b) sections of
        Inl err \<Rightarrow> Inl err
      | Inr currentSection \<Rightarrow>
          if truthy_string currentSection then
            (case currentSection of
               Some s \<Rightarrow> Inr (setActiveSection s st1)
             | None \<Rightarrow> Inr st1)
          else Inr st1)"

text \<open>One scroll event after another, each seeing the browser as it is when it fires.\<close>

fun run_scrolls :: "browser list \<Rightarrow> nav_state \<Rightarrow> js_error + nav_state" where
  "run_scrolls [] st = Inr st"
| "run_scrolls (b # bs) st =
     (case handleScroll b st of Inl err \<Rightarrow> Inl err | Inr st' \<Rightarrow> run_scrolls bs st')"

text \<open>\<^verbatim>\<open>scrollToSection\<close> of the navigation bar.\<close>

definition ElegantNavigation_scrollToSection :: "string \<Rightarrow> browser \<Rightarrow> js_error + browser" where
  "ElegantNavigation_scrollToSection sectionId b =
     (let element = getElementById b sectionId in
      if truthy_element element then
        scrollIntoView element \<lparr>behavior = Some Smooth, block = None\<rparr> b
      else Inr b)"

text \<open>The links of the navigation bar, and the test
  \<^verbatim>\<open>activeSection === item.id\<close> that highlights one of them.\<close>

definition navItems :: "string list" where
  "navItems = [''work'', ''services'', ''about'']"

definition nav_item_active :: "nav_state \<Rightarrow> string \<Rightarrow> bool" where
  "nav_item_active st item = (activeSection st = item)"

text \<open>What can happen to the mounted navigation bar: the window scrolls, or one of its
  buttons (logo, link, call to action) is clicked and calls
  \<^verbatim>\<open>scrollToSection\<close> with its identifier.\<close>

datatype nav_event = ScrollEvent | Click string

definition ElegantNavigation_step ::
  "nav_event \<Rightarrow> browser \<times> nav_state \<Rightarrow> js_error + browser \<times> nav_state" where
  "ElegantNavigation_step ev bs =
     (case ev of
        ScrollEvent \<Rightarrow>
          (case handleScroll (fst bs) (snd bs) of
             Inl err \<Rightarrow> Inl err
           | Inr st' \<Rightarrow> Inr (fst bs, st'))
      | Click sid \<Rightarrow>
          (case ElegantNavigation_scrollToSection sid (fst bs) of
             Inl err \<Rightarrow> Inl err
           | Inr b' \<Rightarrow> Inr (b', snd bs)))"

section \<open>Footer: quick links\<close>

text \<open>\<^verbatim>\<open>scrollToSection\<close> of the footer.\<close>

definition Footer_scrollToSection :: "string \<Rightarrow> browser \<Rightarrow> js_error + browser" where
  "Footer_scrollToSection sectionId b =
     (let element = getElementById b sectionId in
      if truthy_element element then
        scrollIntoView element \<lparr>behavior = Some Smooth, block = None\<rparr> b
      else Inr b)"

section \<open>Index: the preloader gate\<close>

text \<open>The component's state \<^verbatim>\<open>isLoaded\<close>, the two global styles it
  writes (\<^verbatim>\<open>document.body.style.overflow\<close> and the class list of the root
  element), and whether the component instance is mounted. The globals outlive the
  instance; its state does not.\<close>

record page =
  isLoaded :: bool
  body_overflow :: string
  html_classList :: "string list"
  mounted :: bool

definition classList_add :: "string \<Rightarrow> string list \<Rightarrow> string list" where
  "classList_add c cs = (if c \<in> set cs then cs else cs @ [c])"

text \<open>The state setter. React drops the update when the instance has been unmounted.\<close>

definition setIsLoaded :: "bool \<Rightarrow> page \<Rightarrow> page" where
  "setIsLoaded v w = (if mounted w then w\<lparr>isLoaded := v\<rparr> else w)"

text \<open>The first render of a new instance: \<^verbatim>\<open>useState(false)\<close>. No effect
  has run yet.\<close>

definition Index_init :: "page \<Rightarrow> page" where
  "Index_init w = w\<lparr>isLoaded := False, mounted := True\<rparr>"

text \<open>The effect with the empty dependency list, and its cleanup.\<close>

definition Index_effect :: "page \<Rightarrow> page" where
  "Index_effect w =
     (let w1 = w\<lparr>html_classList := classList_add ''dark'' (html_classList w)\<rparr>
      in w1\<lparr>body_overflow := ''hidden''\<rparr>)"

definition Index_effect_cleanup :: "page \<Rightarrow> page" where
  "Index_effect_cleanup w = w\<lparr>body_overflow := ''unset''\<rparr>"

definition handlePreloaderComplete :: "page \<Rightarrow> page" where
  "handlePreloaderComplete w =
     (let w1 = setIsLoaded True w in w1\<lparr>body_overflow := ''unset''\<rparr>)"

text \<open>The commit of the first render. The effects of the children run before the
  effect of the page, so the preloader can call \<^verbatim>\<open>onComplete\<close> from its
  own mount effect; \<open>early\<close> is the number of times it does so. Then the effect of
  the page runs.\<close>

definition Index_commit :: "nat \<Rightarrow> page \<Rightarrow> page" where
  "Index_commit early w =
     Index_effect ((handlePreloaderComplete ^^ early) (Index_init w))"

text \<open>The commit in which the preloader does not complete before the page's effect.\<close>

definition Index_mount :: "page \<Rightarrow> page" where
  "Index_mount w = Index_commit 0 w"

text \<open>Tearing the instance down: the cleanup of the effect runs and the instance is
  gone. There is nothing to tear down twice.\<close>

definition Index_unmount :: "page \<Rightarrow> page" where
  "Index_unmount w =
     (if mounted w then (Index_effect_cleanup w)\<lparr>mounted := False\<rparr> else w)"



text \<open>The page cannot be scrolled while the body's overflow is \<^verbatim>\<open>hidden\<close>.\<close>

definition scroll_locked :: "page \<Rightarrow> bool" where
  "scroll_locked w = (body_overflow w = ''hidden'')"

text \<open>What can happen after the commit: the preloader (or a timer it left behind)
  calls \<^verbatim>\<open>onComplete\<close>, or the component is torn down.\<close>

datatype index_event = PreloaderComplete | Unmount

definition Index_step :: "page \<Rightarrow> index_event \<Rightarrow> page" where
  "Index_step w ev =
     (case ev of
        PreloaderComplete \<Rightarrow> handlePreloaderComplete w
      | Unmount \<Rightarrow> Index_unmount w)"




section \<open>Properties of the scroll tracker\<close>

lemma section_callback_Inr:
  "section_callback b s =
     Inr (case getElementById b s of
            None \<Rightarrow> False
          | Some e \<Rightarrow> rect_top (el_rect e) \<le> 100 \<and> rect_bottom (el_rect e) \<ge> 100)"
  by (simp add: section_callback_def truthy_element_def getBoundingClientRect_def
      split: option.splits)

lemma Array_find_pure:
  assumes "\<And>x. p x = Inr (q x)"
  shows "Array_find p xs = Inr (List.find q xs)"
  by (induction xs) (simp_all add: assms)

lemma find_in_set: "List.find q xs = Some x \<Longrightarrow> x \<in> set xs"
  by (induction xs) (auto split: if_splits)

lemma sections_nonempty: "s \<in> set sections \<Longrightarrow> s \<noteq> []"
  by (auto simp: sections_def)

lemma sections_distinct: "distinct sections"
  by (simp add: sections_def)

text \<open>The handler never throws, and its result is that of a search with a pure
  predicate: the guard \<^verbatim>\<open>if (element)\<close> keeps the rectangle query away from
  null, and every declared identifier is a non-empty string, so a found section passes
  the test \<^verbatim>\<open>if (currentSection)\<close>.\<close>

lemma handleScroll_eq:
  "handleScroll b st =
     Inr (case List.find (\<lambda>s. case getElementById b s of
            None \<Rightarrow> False
          | Some e \<Rightarrow> rect_top (el_rect e) \<le> 100 \<and> rect_bottom (el_rect e) \<ge> 100) sections of
            None \<Rightarrow> st\<lparr>isScrolled := scrollY b > 50\<rparr>
          | Some s \<Rightarrow> st\<lparr>isScrolled := scrollY b > 50, activeSection := s\<rparr>)"
proof -
  let ?q = "\<lambda>s. case getElementById b s of
            None \<Rightarrow> False
          | Some e \<Rightarrow> rect_top (el_rect e) \<le> 100 \<and> rect_bottom (el_rect e) \<ge> 100"
  have f: "Array_find (section_callback b) sections = Inr (List.find ?q sections)"
    by (rule Array_find_pure) (rule section_callback_Inr)
  show ?thesis
  proof (cases "List.find ?q sections")
    case None
    with f show ?thesis
      by (simp add: handleScroll_def truthy_string_def setIsScrolled_def)
  next
    case (Some s)
    then have "s \<noteq> []" by (blast dest: find_in_set sections_nonempty)
    with f Some show ?thesis
      by (simp add: handleScroll_def truthy_string_def setIsScrolled_def setActiveSection_def)
  qed
qed

subsection \<open>The scroll threshold\<close>

text \<open>
  Claim C3. For every scroll offset, the scroll handler returns normally and sets
  \<^verbatim>\<open>isScrolled\<close> (pastThreshold) to true exactly when
  \<^verbatim>\<open>window.scrollY\<close> is strictly greater than 50; at 50 and below it is
  set to false, whatever it was before.
\<close>

theorem handleScroll_pastThreshold:
  "\<exists>st'. handleScroll b st = Inr st' \<and> (isScrolled st' \<longleftrightarrow> scrollY b > 50)"
  by (simp add: handleScroll_eq split: option.split)

theorem handleScroll_pastThreshold_witness:
  "(\<exists>st'. handleScroll \<lparr>elements = [], scrollY = 50, scroll_calls = []\<rparr>
            \<lparr>isScrolled = True, activeSection = ''work''\<rparr> = Inr st' \<and> \<not> isScrolled st') \<and>
   (\<exists>st'. handleScroll \<lparr>elements = [], scrollY = 50.5, scroll_calls = []\<rparr>
            \<lparr>isScrolled = False, activeSection = ''work''\<rparr> = Inr st' \<and> isScrolled st')"
  using handleScroll_pastThreshold
          [of "\<lparr>elements = [], scrollY = 50, scroll_calls = []\<rparr>"
              "\<lparr>isScrolled = True, activeSection = ''work''\<rparr>"]
        handleScroll_pastThreshold
          [of "\<lparr>elements = [], scrollY = 50.5, scroll_calls = []\<rparr>"
              "\<lparr>isScrolled = False, activeSection = ''work''\<rparr>"]
  by simp

subsection \<open>The active section\<close>

text \<open>
  Claim C1. On every scroll event the handler makes \<^verbatim>\<open>activeSection\<close> the
  first identifier of the declared list (hero, services, work, about, contact) whose
  element is present with a bounding rectangle that has \<open>top \<le> 100\<close> and
  \<open>bottom \<ge> 100\<close>: when the identifier at position \<open>i\<close> qualifies and no
  identifier before it does, the handler returns normally with that identifier active,
  whatever the rectangles of the later identifiers are.
\<close>

theorem handleScroll_first_match:
  assumes "i < length sections"
    and "getElementById b (sections ! i) = Some e"
    and "rect_top (el_rect e) \<le> 100" and "rect_bottom (el_rect e) \<ge> 100"
    and "\<forall>j<i. \<forall>e'. getElementById b (sections ! j) = Some e' \<longrightarrow>
           \<not> (rect_top (el_rect e') \<le> 100 \<and> rect_bottom (el_rect e') \<ge> 100)"
  shows "\<exists>st'. handleScroll b st = Inr st' \<and> activeSection st' = sections ! i"
proof -
  let ?q = "\<lambda>s. case getElementById b s of
            None \<Rightarrow> False
          | Some e \<Rightarrow> rect_top (el_rect e) \<le> 100 \<and> rect_bottom (el_rect e) \<ge> 100"
  have here: "?q (sections ! i)" using assms(2-4) by simp
  have before: "\<forall>j<i. \<not> ?q (sections ! j)"
    using assms(5) by (auto split: option.splits)
  have "List.find ?q sections = Some (sections ! i)"
    unfolding find_Some_iff using assms(1) here before by blast
  then show ?thesis by (simp add: handleScroll_eq)
qed

theorem handleScroll_first_match_witness:
  "\<exists>st'. handleScroll
      \<lparr>elements =
         [\<lparr>el_id = ''work'', el_rect = \<lparr>rect_top = 100, rect_bottom = 900\<rparr>\<rparr>,
          \<lparr>el_id = ''services'', el_rect = \<lparr>rect_top = -700, rect_bottom = 100\<rparr>\<rparr>,
          \<lparr>el_id = ''hero'', el_rect = \<lparr>rect_top = -1500, rect_bottom = -700\<rparr>\<rparr>],
       scrollY = 1500, scroll_calls = []\<rparr>
      \<lparr>isScrolled = False, activeSection = ''about''\<rparr> = Inr st' \<and> activeSection st' = ''services''"
  using handleScroll_first_match
    [of 1 "\<lparr>elements =
         [\<lparr>el_id = ''work'', el_rect = \<lparr>rect_top = 100, rect_bottom = 900\<rparr>\<rparr>,
          \<lparr>el_id = ''services'', el_rect = \<lparr>rect_top = -700, rect_bottom = 100\<rparr>\<rparr>,
          \<lparr>el_id = ''hero'', el_rect = \<lparr>rect_top = -1500, rect_bottom = -700\<rparr>\<rparr>],
       scrollY = 1500, scroll_calls = []\<rparr>"
       "\<lparr>el_id = ''services'', el_rect = \<lparr>rect_top = -700, rect_bottom = 100\<rparr>\<rparr>"
       "\<lparr>isScrolled = False, activeSection = ''about''\<rparr>"]
  by (simp add: sections_def getElementById_def)

text \<open>
  Claim C2. When no declared identifier has a present element whose rectangle contains
  the reference line at 100 pixels, the handler returns normally and
  \<^verbatim>\<open>activeSection\<close> keeps the value it had before the event; it is not
  reset to the empty string.
\<close>

theorem handleScroll_no_match_keeps:
  assumes "\<forall>s \<in> set sections. \<forall>e. getElementById b s = Some e \<longrightarrow>
           \<not> (rect_top (el_rect e) \<le> 100 \<and> rect_bottom (el_rect e) \<ge> 100)"
  shows "\<exists>st'. handleScroll b st = Inr st' \<and> activeSection st' = activeSection st"
proof -
  let ?q = "\<lambda>s. case getElementById b s of
            None \<Rightarrow> False
          | Some e \<Rightarrow> rect_top (el_rect e) \<le> 100 \<and> rect_bottom (el_rect e) \<ge> 100"
  have "\<forall>s \<in> set sections. \<not> ?q s"
    using assms by (auto split: option.splits)
  then have "List.find ?q sections = None"
    by (simp add: find_None_iff)
  then show ?thesis by (simp add: handleScroll_eq)
qed

theorem handleScroll_no_match_keeps_witness:
  "\<exists>st'. handleScroll
      \<lparr>elements =
         [\<lparr>el_id = ''hero'', el_rect = \<lparr>rect_top = 101, rect_bottom = 900\<rparr>\<rparr>,
          \<lparr>el_id = ''services'', el_rect = \<lparr>rect_top = 900, rect_bottom = 1700\<rparr>\<rparr>],
       scrollY = 0, scroll_calls = []\<rparr>
      \<lparr>isScrolled = True, activeSection = ''work''\<rparr> = Inr st' \<and> activeSection st' = ''work''"
  using handleScroll_no_match_keeps
    [of "\<lparr>elements =
         [\<lparr>el_id = ''hero'', el_rect = \<lparr>rect_top = 101, rect_bottom = 900\<rparr>\<rparr>,
          \<lparr>el_id = ''services'', el_rect = \<lparr>rect_top = 900, rect_bottom = 1700\<rparr>\<rparr>],
       scrollY = 0, scroll_calls = []\<rparr>"
       "\<lparr>isScrolled = True, activeSection = ''work''\<rparr>"]
  by (simp add: sections_def getElementById_def)

text \<open>
  Claim C7. The scroll handler returns normally on every state of the document. A
  declared identifier without an element in the document is not a match: the callback
  answers false for it without throwing, and the handler never makes it the active
  section (it is active afterwards only if it was active before).
\<close>

theorem handleScroll_skips_missing_anchor:
  "(\<exists>st'. handleScroll b st = Inr st') \<and>
   (getElementById b s = None \<longrightarrow>
      section_callback b s = Inr False \<and>
      (\<forall>st'. handleScroll b st = Inr st' \<and> activeSection st' = s \<longrightarrow> activeSection st = s))"
proof -
  have total: "\<exists>st'. handleScroll b st = Inr st'"
    by (simp add: handleScroll_eq)
  have skip: "section_callback b s = Inr False" if "getElementById b s = None"
    using that by (simp add: section_callback_Inr)
  have keep: "activeSection st = s"
    if none: "getElementById b s = None"
      and res: "handleScroll b st = Inr st'" and act: "activeSection st' = s" for st'
  proof -
    let ?q = "\<lambda>s. case getElementById b s of
            None \<Rightarrow> False
          | Some e \<Rightarrow> rect_top (el_rect e) \<le> 100 \<and> rect_bottom (el_rect e) \<ge> 100"
    show ?thesis
    proof (cases "List.find ?q sections")
      case None
      with res act show ?thesis by (auto simp: handleScroll_eq)
    next
      case (Some t)
      then have "?q t" by (auto simp: find_Some_iff)
      moreover from Some res act have "t = s" by (auto simp: handleScroll_eq)
      ultimately show ?thesis using none by simp
    qed
  qed
  from total skip keep show ?thesis by blast
qed

theorem handleScroll_skips_missing_anchor_witness:
  "(\<exists>st'. handleScroll \<lparr>elements = [], scrollY = 0, scroll_calls = []\<rparr>
            \<lparr>isScrolled = False, activeSection = ''''\<rparr> = Inr st') \<and>
   section_callback \<lparr>elements = [], scrollY = 0, scroll_calls = []\<rparr> ''hero'' = Inr False"
  using handleScroll_skips_missing_anchor
    [of "\<lparr>elements = [], scrollY = 0, scroll_calls = []\<rparr>"
        "\<lparr>isScrolled = False, activeSection = ''''\<rparr>" "''hero''"]
  by (simp add: getElementById_def)

subsection \<open>The invariant of the active section\<close>

lemma handleScroll_activeSection:
  "handleScroll b st = Inr st' \<Longrightarrow>
     activeSection st' = activeSection st \<or> activeSection st' \<in> set sections"
  by (auto simp: handleScroll_eq split: option.splits dest: find_in_set)

lemma run_scrolls_invariant:
  "activeSection st = [] \<or> activeSection st \<in> set sections \<Longrightarrow>
     \<exists>st'. run_scrolls bs st = Inr st' \<and>
       (activeSection st' = [] \<or> activeSection st' \<in> set sections)"
proof (induction bs arbitrary: st)
  case Nil
  then show ?case by simp
next
  case (Cons b bs)
  obtain st1 where st1: "handleScroll b st = Inr st1"
    by (simp add: handleScroll_eq)
  with Cons.prems have "activeSection st1 = [] \<or> activeSection st1 \<in> set sections"
    using handleScroll_activeSection [OF st1] by auto
  from Cons.IH [OF this] st1 show ?case by simp
qed

lemma filter_eq_distinct_le_one:
  "distinct xs \<Longrightarrow> length (filter (\<lambda>r. a = r) xs) \<le> Suc 0"
proof (induction xs)
  case Nil
  show ?case by simp
next
  case (Cons x xs)
  show ?case
  proof (cases "a = x")
    case True
    with Cons.prems have "a \<notin> set xs" by simp
    then have "filter (\<lambda>r. a = r) xs = []" by (auto simp: filter_empty_conv)
    with True show ?thesis by simp
  next
    case False
    with Cons show ?thesis by simp
  qed
qed

lemma at_most_one_active:
  "length (filter (nav_item_active st) sections) \<le> 1"
  using filter_eq_distinct_le_one [OF sections_distinct, of "activeSection st"]
  by (simp add: nav_item_active_def [abs_def])

text \<open>
  Claim C5. After any sequence of scroll events, starting from the initial state of the
  navigation bar, the handler has returned normally every time,
  \<^verbatim>\<open>activeSection\<close> is the empty string or one of the five declared
  identifiers, and at most one declared identifier is the active one.
\<close>

theorem active_region_invariant:
  "\<exists>st'. run_scrolls bs ElegantNavigation_init = Inr st' \<and>
     (activeSection st' = '''' \<or> activeSection st' \<in> set sections) \<and>
     length (filter (nav_item_active st') sections) \<le> 1"
proof -
  have "activeSection ElegantNavigation_init = []"
    by (simp add: ElegantNavigation_init_def)
  then obtain st' where "run_scrolls bs ElegantNavigation_init = Inr st'"
    and "activeSection st' = [] \<or> activeSection st' \<in> set sections"
    using run_scrolls_invariant [of ElegantNavigation_init bs] by blast
  then show ?thesis using at_most_one_active [of st'] by simp
qed

theorem active_region_invariant_witness:
  "\<exists>st'. run_scrolls
      [\<lparr>elements =
          [\<lparr>el_id = ''hero'', el_rect = \<lparr>rect_top = -800, rect_bottom = 0\<rparr>\<rparr>,
           \<lparr>el_id = ''services'', el_rect = \<lparr>rect_top = 0, rect_bottom = 800\<rparr>\<rparr>],
        scrollY = 800, scroll_calls = []\<rparr>,
       \<lparr>elements =
          [\<lparr>el_id = ''hero'', el_rect = \<lparr>rect_top = -1700, rect_bottom = -900\<rparr>\<rparr>,
           \<lparr>el_id = ''services'', el_rect = \<lparr>rect_top = -900, rect_bottom = -100\<rparr>\<rparr>],
        scrollY = 1700, scroll_calls = []\<rparr>]
      ElegantNavigation_init = Inr st' \<and>
     activeSection st' = ''services'' \<and>
     length (filter (nav_item_active st') sections) = 1"
proof -
  let ?bs = "[\<lparr>elements =
          [\<lparr>el_id = ''hero'', el_rect = \<lparr>rect_top = -800, rect_bottom = 0\<rparr>\<rparr>,
           \<lparr>el_id = ''services'', el_rect = \<lparr>rect_top = 0, rect_bottom = 800\<rparr>\<rparr>],
        scrollY = 800, scroll_calls = []\<rparr>,
       \<lparr>elements =
          [\<lparr>el_id = ''hero'', el_rect = \<lparr>rect_top = -1700, rect_bottom = -900\<rparr>\<rparr>,
           \<lparr>el_id = ''services'', el_rect = \<lparr>rect_top = -900, rect_bottom = -100\<rparr>\<rparr>],
        scrollY = 1700, scroll_calls = []\<rparr>]"
  from active_region_invariant [of ?bs]
  obtain st' where run: "run_scrolls ?bs ElegantNavigation_init = Inr st'"
    by blast
  then have "activeSection st' = ''services''"
    by (auto simp: handleScroll_eq getElementById_def sections_def ElegantNavigation_init_def)
  with run show ?thesis
    by (simp add: nav_item_active_def sections_def)
qed

subsection \<open>Initial state and frame of the navigation bar\<close>

text \<open>
  Claim C9. When the navigation bar is initialised, \<^verbatim>\<open>isScrolled\<close> is false
  and \<^verbatim>\<open>activeSection\<close> is the empty string, so that no link and no declared
  section counts as active; and an event of the navigation bar that is not a scroll
  event (a click that calls \<^verbatim>\<open>scrollToSection\<close>) leaves both unchanged.
\<close>

theorem navigation_state_initial_and_frame:
  "\<not> isScrolled ElegantNavigation_init \<and> activeSection ElegantNavigation_init = '''' \<and>
   (\<forall>item \<in> set navItems. \<not> nav_item_active ElegantNavigation_init item) \<and>
   (\<forall>item \<in> set sections. \<not> nav_item_active ElegantNavigation_init item) \<and>
   (ev \<noteq> ScrollEvent \<and> ElegantNavigation_step ev (b, st) = Inr (b', st') \<longrightarrow> st' = st)"
  by (cases ev)
    (auto simp: ElegantNavigation_init_def navItems_def sections_def nav_item_active_def
      ElegantNavigation_step_def split: sum.splits)

theorem navigation_state_initial_and_frame_witness:
  "ElegantNavigation_step (Click ''hero'')
     (\<lparr>elements = [\<lparr>el_id = ''hero'', el_rect = \<lparr>rect_top = -900, rect_bottom = -100\<rparr>\<rparr>],
       scrollY = 900, scroll_calls = []\<rparr>,
      \<lparr>isScrolled = True, activeSection = ''work''\<rparr>) =
   Inr (\<lparr>elements = [\<lparr>el_id = ''hero'', el_rect = \<lparr>rect_top = -900, rect_bottom = -100\<rparr>\<rparr>],
       scrollY = 900,
       scroll_calls = [(\<lparr>el_id = ''hero'', el_rect = \<lparr>rect_top = -900, rect_bottom = -100\<rparr>\<rparr>,
           \<lparr>behavior = Some Smooth, block = None\<rparr>)]\<rparr>,
      \<lparr>isScrolled = True, activeSection = ''work''\<rparr>)"
  using navigation_state_initial_and_frame
    [of "Click ''hero''"
      "\<lparr>elements = [\<lparr>el_id = ''hero'', el_rect = \<lparr>rect_top = -900, rect_bottom = -100\<rparr>\<rparr>],
       scrollY = 900, scroll_calls = []\<rparr>"
      "\<lparr>isScrolled = True, activeSection = ''work''\<rparr>"]
  by (simp add: ElegantNavigation_step_def ElegantNavigation_scrollToSection_def
      getElementById_def truthy_element_def scrollIntoView_def)

subsection \<open>Scrolling to a section\<close>

lemma getElementById_Some:
  "getElementById b sid = Some e \<Longrightarrow> el_id e = sid \<and> e \<in> set (elements b)"
  by (auto simp: getElementById_def find_Some_iff split: if_splits)

text \<open>
  Claim C6. For every identifier handed to \<^verbatim>\<open>scrollToSection\<close> (the one of
  the navigation bar and the one of the footer): when the document has an element with
  that identifier, the call returns normally having made exactly one
  \<^verbatim>\<open>scrollIntoView\<close> invocation, on that element, with smooth behaviour and
  the block position \<^verbatim>\<open>start\<close> (top of the element to the top of the
  viewport), and nothing else of the browser changes; when there is no such element the
  call returns normally and changes nothing.
\<close>

theorem scrollToSection_invokes_once:
  "(getElementById b sid = Some e \<longrightarrow>
      ElegantNavigation_scrollToSection sid b =
        Inr (b\<lparr>scroll_calls :=
               scroll_calls b @ [(e, \<lparr>behavior = Some Smooth, block = None\<rparr>)]\<rparr>) \<and>
      Footer_scrollToSection sid b =
        Inr (b\<lparr>scroll_calls :=
               scroll_calls b @ [(e, \<lparr>behavior = Some Smooth, block = None\<rparr>)]\<rparr>) \<and>
      el_id e = sid \<and> e \<in> set (elements b) \<and>
      resolved_behavior \<lparr>behavior = Some Smooth, block = None\<rparr> = Smooth \<and>
      resolved_block \<lparr>behavior = Some Smooth, block = None\<rparr> = Start) \<and>
   (getElementById b sid = None \<longrightarrow>
      ElegantNavigation_scrollToSection sid b = Inr b \<and> Footer_scrollToSection sid b = Inr b)"
  using getElementById_Some [of b sid e]
  by (simp add: ElegantNavigation_scrollToSection_def Footer_scrollToSection_def
      truthy_element_def scrollIntoView_def resolved_behavior_def resolved_block_def)

theorem scrollToSection_invokes_once_witness:
  "Footer_scrollToSection ''work''
     \<lparr>elements =
         [\<lparr>el_id = ''hero'', el_rect = \<lparr>rect_top = 0, rect_bottom = 800\<rparr>\<rparr>,
          \<lparr>el_id = ''work'', el_rect = \<lparr>rect_top = 1600, rect_bottom = 2400\<rparr>\<rparr>],
       scrollY = 0, scroll_calls = []\<rparr> =
   Inr \<lparr>elements =
         [\<lparr>el_id = ''hero'', el_rect = \<lparr>rect_top = 0, rect_bottom = 800\<rparr>\<rparr>,
          \<lparr>el_id = ''work'', el_rect = \<lparr>rect_top = 1600, rect_bottom = 2400\<rparr>\<rparr>],
       scrollY = 0,
       scroll_calls =
         [(\<lparr>el_id = ''work'', el_rect = \<lparr>rect_top = 1600, rect_bottom = 2400\<rparr>\<rparr>,
           \<lparr>behavior = Some Smooth, block = None\<rparr>)]\<rparr> \<and>
   ElegantNavigation_scrollToSection ''about''
     \<lparr>elements =
         [\<lparr>el_id = ''hero'', el_rect = \<lparr>rect_top = 0, rect_bottom = 800\<rparr>\<rparr>,
          \<lparr>el_id = ''work'', el_rect = \<lparr>rect_top = 1600, rect_bottom = 2400\<rparr>\<rparr>],
       scrollY = 0, scroll_calls = []\<rparr> =
   Inr \<lparr>elements =
         [\<lparr>el_id = ''hero'', el_rect = \<lparr>rect_top = 0, rect_bottom = 800\<rparr>\<rparr>,
          \<lparr>el_id = ''work'', el_rect = \<lparr>rect_top = 1600, rect_bottom = 2400\<rparr>\<rparr>],
       scrollY = 0, scroll_calls = []\<rparr>"
  using scrollToSection_invokes_once
    [of "\<lparr>elements =
         [\<lparr>el_id = ''hero'', el_rect = \<lparr>rect_top = 0, rect_bottom = 800\<rparr>\<rparr>,
          \<lparr>el_id = ''work'', el_rect = \<lparr>rect_top = 1600, rect_bottom = 2400\<rparr>\<rparr>],
       scrollY = 0, scroll_calls = []\<rparr>" "''work''"
        "\<lparr>el_id = ''work'', el_rect = \<lparr>rect_top = 1600, rect_bottom = 2400\<rparr>\<rparr>"]
    scrollToSection_invokes_once
    [of "\<lparr>elements =
         [\<lparr>el_id = ''hero'', el_rect = \<lparr>rect_top = 0, rect_bottom = 800\<rparr>\<rparr>,
          \<lparr>el_id = ''work'', el_rect = \<lparr>rect_top = 1600, rect_bottom = 2400\<rparr>\<rparr>],
       scrollY = 0, scroll_calls = []\<rparr>" "''about''"
        "\<lparr>el_id = ''hero'', el_rect = \<lparr>rect_top = 0, rect_bottom = 800\<rparr>\<rparr>"]
  by (simp add: getElementById_def)

section \<open>Properties of the preloader gate\<close>

















text \<open>
  Claim C8. When the page is torn down while it is still in the Loading phase, the
  cleanup of its effect releases the scroll lock: after the unmount step the body's
  overflow is no longer \<^verbatim>\<open>hidden\<close>.
\<close>

theorem unmount_while_loading_releases_lock:
  "\<not> isLoaded (Index_mount w) \<and> scroll_locked (Index_mount w) \<and>
   \<not> scroll_locked (Index_step (Index_mount w) Unmount) \<and>
   (\<not> isLoaded s \<longrightarrow> \<not> scroll_locked (Index_effect_cleanup s))"
  by (simp add: Index_mount_def Index_commit_def Index_effect_def Index_init_def
      scroll_locked_def Index_step_def Index_unmount_def Index_effect_cleanup_def)

theorem unmount_while_loading_releases_lock_witness:
  "\<not> isLoaded \<lparr>isLoaded = False, body_overflow = ''hidden'', html_classList = [''dark''], mounted = True\<rparr> \<and>
   scroll_locked \<lparr>isLoaded = False, body_overflow = ''hidden'', html_classList = [''dark''], mounted = True\<rparr> \<and>
   \<not> scroll_locked (Index_effect_cleanup
       \<lparr>isLoaded = False, body_overflow = ''hidden'', html_classList = [''dark''], mounted = True\<rparr>)"
  using unmount_while_loading_releases_lock
    [of "\<lparr>isLoaded = False, body_overflow = ''auto'', html_classList = [], mounted = False\<rparr>"
        "\<lparr>isLoaded = False, body_overflow = ''hidden'', html_classList = [''dark''], mounted = True\<rparr>"]
  by (simp add: scroll_locked_def)

text \<open>
  Claim C10. Both ways of releasing the lock, the completion handler and the cleanup on
  unmount, write the fixed value \<^verbatim>\<open>unset\<close> to the body's overflow style.
  The value that style held before the page was mounted is not restored: whenever it was
  anything other than \<^verbatim>\<open>unset\<close>, the style after the release differs
  from it.
\<close>

theorem release_writes_unset:
  "body_overflow (handlePreloaderComplete (Index_mount w)) = ''unset'' \<and>
   body_overflow (Index_effect_cleanup (Index_mount w)) = ''unset'' \<and>
   body_overflow (handlePreloaderComplete w) = ''unset'' \<and>
   body_overflow (Index_effect_cleanup w) = ''unset'' \<and>
   (body_overflow w \<noteq> ''unset'' \<longrightarrow>
      body_overflow (handlePreloaderComplete (Index_mount w)) \<noteq> body_overflow w \<and>
      body_overflow (Index_effect_cleanup (Index_mount w)) \<noteq> body_overflow w)"
  by (simp add: handlePreloaderComplete_def Index_effect_cleanup_def)

theorem release_writes_unset_witness:
  "body_overflow \<lparr>isLoaded = False, body_overflow = ''scroll'', html_classList = [], mounted = False\<rparr> \<noteq> ''unset'' \<and>
   body_overflow (handlePreloaderComplete
      (Index_mount \<lparr>isLoaded = False, body_overflow = ''scroll'', html_classList = [], mounted = False\<rparr>)) \<noteq> ''scroll'' \<and>
   body_overflow (Index_effect_cleanup
      (Index_mount \<lparr>isLoaded = False, body_overflow = ''scroll'', html_classList = [], mounted = False\<rparr>)) \<noteq> ''scroll''"
  using release_writes_unset
    [of "\<lparr>isLoaded = False, body_overflow = ''scroll'', html_classList = [], mounted = False\<rparr>"]
  by simp

end
